theory Spec2Isabelle
  imports Complex_Main
begin

section \<open>Credit approval backend: data model\<close>

text \<open>
  The embedding follows \<^verbatim>\<open>customers/models.py\<close>, \<^verbatim>\<open>customers/serializers.py\<close>,
  \<^verbatim>\<open>loans/models.py\<close>, \<^verbatim>\<open>loans/serializers.py\<close> and \<^verbatim>\<open>loans/views.py\<close>.

  Numbers. Django \<^verbatim>\<open>IntegerField\<close> values and Python ints are \<^typ>\<open>int\<close>.
  \<^verbatim>\<open>DecimalField\<close> values (Python \<^verbatim>\<open>Decimal\<close>) are \<^typ>\<open>rat\<close>: every decimal is a
  rational and decimal addition and comparison are exact. A Python \<^verbatim>\<open>float\<close> is a
  rational too. The views and \<open>calculate_emi\<close> are embedded with float arithmetic as
  exact rational arithmetic: the binary rounding error of each float operation and
  float overflow are not represented there. \<open>calculate_emi_double\<close> embeds the same
  calculator with every float operation rounded to the nearest binary64 double, and is
  what the order properties of the EMI are stated on. Every comparison the code makes
  between mixed int, Decimal and float values is exact in Python 3, and is exact here.

  Time. \<^verbatim>\<open>timezone.now()\<close> is a parameter \<open>now\<close> of every function that reads the
  clock; only its calendar date is used.

  Storage. The two tables are lists of rows; a foreign key is the key of the row it
  points to.
\<close>

record date =
  year :: int
  month :: int
  day :: int

definition date_gte :: "date \<Rightarrow> date \<Rightarrow> bool" where
  \<comment> \<open>\<^verbatim>\<open>a >= b\<close> on \<^verbatim>\<open>datetime.date\<close>: lexicographic on (year, month, day).\<close>
  "date_gte a b \<longleftrightarrow>
     year a > year b \<or>
     (year a = year b \<and> (month a > month b \<or> (month a = month b \<and> day a \<ge> day b)))"

record customer =
  customer_id :: int
  first_name :: string
  last_name :: string
  phone_number :: string
  age :: int
  monthly_salary :: int
  approved_limit :: int
  current_debt :: int

record loan =
  loan_id :: int
  loan_customer :: int  \<comment> \<open>the foreign key \<^verbatim>\<open>customer\<close>: the owner's \<open>customer_id\<close>\<close>
  loan_amount :: rat
  tenure :: int
  interest_rate :: rat
  monthly_repayment :: rat
  emis_paid_on_time :: int
  start_date :: date
  end_date :: date

record database =
  Customer_objects :: "customer list"
  Loan_objects :: "loan list"
  next_customer_id :: int
  next_loan_id :: int

datatype py_error = ZeroDivisionError | OverflowError
  \<comment> \<open>\<^verbatim>\<open>OverflowError\<close> is what date arithmetic raises out of range, see \<open>create_loan\<close>\<close>

datatype 'a http_response = HTTP_200_OK 'a | HTTP_400_BAD_REQUEST | HTTP_404_NOT_FOUND

section \<open>Python and Django primitives used by the code\<close>

definition Sum_aggregate :: "('a \<Rightarrow> 'b::monoid_add) \<Rightarrow> 'a list \<Rightarrow> 'b option" where
  \<comment> \<open>\<^verbatim>\<open>qs.aggregate(x=Sum(field))['x']\<close>: SQL \<^verbatim>\<open>SUM\<close> is \<^verbatim>\<open>NULL\<close> (None) over no rows.\<close>
  "Sum_aggregate f rows = (if rows = [] then None else Some (sum_list (map f rows)))"

definition or_0 :: "'b::zero option \<Rightarrow> 'b" where
  \<comment> \<open>\<^verbatim>\<open>x or 0\<close> for \<^verbatim>\<open>x\<close> None or a number: a zero sum is falsy and gives \<^verbatim>\<open>0\<close> too.\<close>
  "or_0 x = (case x of None \<Rightarrow> 0 | Some v \<Rightarrow> v)"

definition int_trunc :: "rat \<Rightarrow> int" where
  \<comment> \<open>\<^verbatim>\<open>int(x)\<close>: truncation towards zero.\<close>
  "int_trunc x = (if x \<ge> 0 then \<lfloor>x\<rfloor> else \<lceil>x\<rceil>)"

definition round_half_even :: "rat \<Rightarrow> int" where
  \<comment> \<open>Nearest integer, a tie going to the even neighbour, as Python's \<^verbatim>\<open>round\<close> does.\<close>
  "round_half_even x =
     (let f = \<lfloor>x\<rfloor>; d = x - of_int f in
      if d < 1 / 2 then f
      else if d > 1 / 2 then f + 1
      else if even f then f else f + 1)"

definition round_float :: "rat \<Rightarrow> nat \<Rightarrow> rat" where
  \<comment> \<open>\<^verbatim>\<open>round(x, ndigits)\<close> for a float \<^verbatim>\<open>x\<close> and \<^verbatim>\<open>ndigits >= 0\<close>.\<close>
  "round_float x ndigits = of_int (round_half_even (x * 10 ^ ndigits)) / 10 ^ ndigits"

definition round_int_neg :: "int \<Rightarrow> nat \<Rightarrow> int" where
  \<comment> \<open>\<^verbatim>\<open>round(n, -k)\<close> for an int \<^verbatim>\<open>n\<close>: the nearest multiple of \<^verbatim>\<open>10**k\<close>, ties to even.\<close>
  "round_int_neg n k = round_half_even (of_int n / 10 ^ k) * 10 ^ k"

definition float_pow :: "rat \<Rightarrow> int \<Rightarrow> py_error + rat" where
  \<comment> \<open>\<^verbatim>\<open>x ** n\<close> for a float \<^verbatim>\<open>x\<close> and an int \<^verbatim>\<open>n\<close>; \<^verbatim>\<open>0.0 ** n\<close> raises for \<^verbatim>\<open>n < 0\<close>.\<close>
  "float_pow x n = (if x = 0 \<and> n < 0 then Inl ZeroDivisionError else Inr (power_int x n))"

definition float_div :: "rat \<Rightarrow> rat \<Rightarrow> py_error + rat" where
  \<comment> \<open>\<^verbatim>\<open>a / b\<close> on floats.\<close>
  "float_div a b = (if b = 0 then Inl ZeroDivisionError else Inr (a / b))"

section \<open>loans/models.py: the EMI calculator\<close>

definition calculate_emi :: "rat \<Rightarrow> rat \<Rightarrow> int \<Rightarrow> py_error + rat" where
  "calculate_emi principal' annual_rate tenure_months =
     (if annual_rate = 0 then float_div principal' (of_int tenure_months)
      else
        let monthly_rate = annual_rate / 12 / 100 in
        case float_pow (1 + monthly_rate) tenure_months of
          Inl e \<Rightarrow> Inl e
        | Inr pw \<Rightarrow>
            (case float_div (principal' * monthly_rate * pw) (pw - 1) of
               Inl e \<Rightarrow> Inl e
             | Inr emi \<Rightarrow> Inr (round_float emi 2)))"

section \<open>loans/models.py: the EMI calculator in binary64 arithmetic\<close>

text \<open>
  A double is a rational \<open>m * 2 ^ e\<close> with \<open>2 ^ 52 \<le> m < 2 ^ 53\<close>. \<open>fl\<close> rounds a
  rational to the nearest double, a tie going to the even mantissa, which is what
  \<^verbatim>\<open>float(d)\<close> of a Decimal and each of \<^verbatim>\<open>*\<close>, \<^verbatim>\<open>/\<close>, \<^verbatim>\<open>+\<close>, \<^verbatim>\<open>-\<close> on floats do. The
  exponent range is not bounded: overflow and subnormal numbers are not represented.
  \<^verbatim>\<open>x ** n\<close> is taken as the correctly rounded power, and \<^verbatim>\<open>round(x, 2)\<close> as the
  double nearest to the half-even rounding of the exact value of \<^verbatim>\<open>x\<close>.
\<close>

function bit_length :: "int \<Rightarrow> nat" where
  \<comment> \<open>the number of binary digits of a positive integer\<close>
  "bit_length k = (if k \<le> 0 then 0 else Suc (bit_length (k div 2)))"
  by pat_completeness auto
termination
  by (relation "measure nat") auto







section \<open>loans/views.py: credit score and approval decision\<close>

definition calculate_credit_score :: "database \<Rightarrow> date \<Rightarrow> customer \<Rightarrow> int" where
  "calculate_credit_score db now customer =
     (let loans = filter (\<lambda>l. loan_customer l = customer_id customer) (Loan_objects db) in
      if loans = [] then 50
      else
        let score = (0::rat);
            total_emis = Sum_aggregate tenure loans;
            paid_on_time = Sum_aggregate emis_paid_on_time loans;
            score =
              (case (total_emis, paid_on_time) of
                 (Some t, Some p) \<Rightarrow>
                   if t \<noteq> 0 \<and> t > 0 then
                     (let on_time_ratio = of_int p / of_int t
                      in score + min 40 (on_time_ratio * 40))
                   else score
               | _ \<Rightarrow> score);
            loan_count = int (length loans);
            score = (if loan_count \<le> 5 then score + of_int (loan_count * 4) else score + 20);
            current_year = year now;
            current_year_loans =
              int (length (filter (\<lambda>l. year (start_date l) = current_year) loans));
            score = score + of_int (min 20 (current_year_loans * 5));
            current_loans = filter (\<lambda>l. date_gte (end_date l) now) loans;
            total_current_amount = or_0 (Sum_aggregate loan_amount current_loans);
            score =
              (if approved_limit customer > 0 then
                 (let utilization_ratio = total_current_amount / of_int (approved_limit customer)
                  in if utilization_ratio \<le> 1 / 2 then score + 20
                     else if utilization_ratio \<le> 3 / 4 then score + 10
                     else if utilization_ratio < 1 then score + 5
                     else 0)
               else score)
        in min 100 (max 0 (int_trunc score)))"

definition get_approval_decision ::
  "database \<Rightarrow> date \<Rightarrow> int \<Rightarrow> customer \<Rightarrow> rat \<Rightarrow> rat \<Rightarrow> int \<Rightarrow> py_error + (bool \<times> rat \<times> string)"
where
  "get_approval_decision db now credit_score customer amount requested_rate tenure_months =
     (let current_loans =
            filter (\<lambda>l. loan_customer l = customer_id customer \<and> date_gte (end_date l) now)
              (Loan_objects db);
          current_loan_sum = or_0 (Sum_aggregate loan_amount current_loans)
      in
      if current_loan_sum + amount > of_int (approved_limit customer) then
        Inr (False, requested_rate, ''Loan amount exceeds approved limit'')
      else
        case (if credit_score > 50 then Some (10, True)
              else if credit_score > 30 then Some (12, True)
              else if credit_score > 10 then Some (16, True)
              else None) of
          None \<Rightarrow> Inr (False, requested_rate, ''Credit score too low'')
        | Some (min_interest, approved) \<Rightarrow>
            let corrected_rate = max requested_rate min_interest in
            (case calculate_emi amount corrected_rate tenure_months of
               Inl e \<Rightarrow> Inl e
             | Inr monthly_emi \<Rightarrow>
                 let current_emis = or_0 (Sum_aggregate monthly_repayment current_loans);
                     total_emi = monthly_emi + current_emis
                 in
                 if total_emi > of_int (monthly_salary customer) * (1 / 2) then
                   Inr (False, corrected_rate, ''EMI exceeds 50% of monthly salary'')
                 else Inr (approved, corrected_rate, ''Approved'')))"

section \<open>loans/serializers.py and the eligibility endpoint\<close>

definition DecimalField_valid :: "nat \<Rightarrow> nat \<Rightarrow> rat \<Rightarrow> bool" where
  \<comment> \<open>The precision check the REST framework makes for a serializer field
      \<^verbatim>\<open>DecimalField(max_digits, decimal_places)\<close>: at most \<^verbatim>\<open>decimal_places\<close> digits after
      the point and at most \<^verbatim>\<open>max_digits - decimal_places\<close> before it. The fields of this
      repository declare no \<^verbatim>\<open>min_value\<close> or \<^verbatim>\<open>max_value\<close>, so nothing else is checked.
      A float handed to a response field is checked through its decimal text; here
      that is the check of its exact value.\<close>
  "DecimalField_valid max_digits decimal_places x \<longleftrightarrow>
     of_int \<lfloor>x * 10 ^ decimal_places\<rfloor> = x * 10 ^ decimal_places \<and>
     \<bar>x\<bar> < 10 ^ (max_digits - decimal_places)"

record loan_request =
  req_customer_id :: int
  req_loan_amount :: rat
  req_interest_rate :: rat
  req_tenure :: int

definition LoanEligibilitySerializer_is_valid :: "loan_request \<Rightarrow> bool" where
  \<comment> \<open>\<^verbatim>\<open>customer_id\<close> and \<^verbatim>\<open>tenure\<close> are plain \<^verbatim>\<open>IntegerField()\<close>: any integer passes.\<close>
  "LoanEligibilitySerializer_is_valid data \<longleftrightarrow>
     DecimalField_valid 12 2 (req_loan_amount data) \<and>
     DecimalField_valid 5 2 (req_interest_rate data)"

record eligibility_response =
  resp_customer_id :: int
  approval :: bool
  resp_interest_rate :: rat
  corrected_interest_rate :: rat
  resp_tenure :: int
  monthly_installment :: rat
  message :: "string option"  \<comment> \<open>the key is only set when \<^verbatim>\<open>approval\<close> is false\<close>

definition LoanEligibilityResponseSerializer_is_valid :: "eligibility_response \<Rightarrow> bool" where
  "LoanEligibilityResponseSerializer_is_valid data \<longleftrightarrow>
     DecimalField_valid 5 2 (resp_interest_rate data) \<and>
     DecimalField_valid 5 2 (corrected_interest_rate data) \<and>
     DecimalField_valid 12 2 (monthly_installment data) \<and>
     (case message data of None \<Rightarrow> True | Some m \<Rightarrow> m \<noteq> [])"

definition check_eligibility ::
  "database \<Rightarrow> date \<Rightarrow> loan_request \<Rightarrow> py_error + eligibility_response http_response"
where
  "check_eligibility db now data =
     (if \<not> LoanEligibilitySerializer_is_valid data then Inr HTTP_400_BAD_REQUEST
      else
        case find (\<lambda>c. customer_id c = req_customer_id data) (Customer_objects db) of
          None \<Rightarrow> Inr HTTP_404_NOT_FOUND
        | Some customer \<Rightarrow>
            let credit_score = calculate_credit_score db now customer in
            (case get_approval_decision db now credit_score customer
                    (req_loan_amount data) (req_interest_rate data) (req_tenure data) of
               Inl e \<Rightarrow> Inl e
             | Inr (approval', corrected_rate, message') \<Rightarrow>
                 (case calculate_emi (req_loan_amount data) corrected_rate (req_tenure data) of
                    Inl e \<Rightarrow> Inl e
                  | Inr monthly_installment' \<Rightarrow>
                      let response_data =
                            \<lparr>resp_customer_id = req_customer_id data,
                             approval = approval',
                             resp_interest_rate = req_interest_rate data,
                             corrected_interest_rate = corrected_rate,
                             resp_tenure = req_tenure data,
                             monthly_installment = monthly_installment',
                             message = (if \<not> approval' then Some message' else None)\<rparr>
                      in
                      if LoanEligibilityResponseSerializer_is_valid response_data
                      then Inr (HTTP_200_OK response_data)
                      else Inr HTTP_400_BAD_REQUEST)))"

definition LoanCreationSerializer_is_valid :: "loan_request \<Rightarrow> bool" where
  \<comment> \<open>The same four fields as \<^verbatim>\<open>LoanEligibilitySerializer\<close>.\<close>
  "LoanCreationSerializer_is_valid data \<longleftrightarrow>
     DecimalField_valid 12 2 (req_loan_amount data) \<and>
     DecimalField_valid 5 2 (req_interest_rate data)"

record creation_response =
  cr_loan_id :: "int option"
  cr_customer_id :: int
  loan_approved :: bool
  cr_message :: string
  cr_monthly_installment :: "rat option"  \<comment> \<open>the key is only set on approval\<close>

definition LoanCreationResponseSerializer_is_valid :: "creation_response \<Rightarrow> bool" where
  "LoanCreationResponseSerializer_is_valid data \<longleftrightarrow>
     cr_message data \<noteq> [] \<and>
     (case cr_monthly_installment data of None \<Rightarrow> True | Some x \<Rightarrow> DecimalField_valid 12 2 x)"

definition create_loan ::
  "(date \<Rightarrow> int \<Rightarrow> py_error + date) \<Rightarrow> database \<Rightarrow> date \<Rightarrow> loan_request
     \<Rightarrow> py_error + (creation_response http_response \<times> database)"
where
  \<comment> \<open>\<open>plus_days d k\<close> stands for \<^verbatim>\<open>d + timedelta(days=k)\<close> of the standard library, which
      raises \<^verbatim>\<open>OverflowError\<close> outside its range. The row is stored as given: what
      the database engine does to a value that exceeds a column's precision is not
      represented.\<close>
  "create_loan plus_days db now data =
     (if \<not> LoanCreationSerializer_is_valid data then Inr (HTTP_400_BAD_REQUEST, db)
      else
        case find (\<lambda>c. customer_id c = req_customer_id data) (Customer_objects db) of
          None \<Rightarrow> Inr (HTTP_404_NOT_FOUND, db)
        | Some customer \<Rightarrow>
            let credit_score = calculate_credit_score db now customer in
            (case get_approval_decision db now credit_score customer
                    (req_loan_amount data) (req_interest_rate data) (req_tenure data) of
               Inl e \<Rightarrow> Inl e
             | Inr (approval', corrected_rate, message') \<Rightarrow>
                 if approval' then
                   (case calculate_emi (req_loan_amount data) corrected_rate (req_tenure data) of
                      Inl e \<Rightarrow> Inl e
                    | Inr monthly_installment' \<Rightarrow>
                        (case plus_days now (req_tenure data * 30) of
                           Inl e \<Rightarrow> Inl e
                         | Inr end_date' \<Rightarrow>
                             let loan' =
                                   \<lparr>loan_id = next_loan_id db,
                                    loan_customer = customer_id customer,
                                    loan_amount = req_loan_amount data,
                                    tenure = req_tenure data,
                                    interest_rate = corrected_rate,
                                    monthly_repayment = monthly_installment',
                                    emis_paid_on_time = 0,
                                    start_date = now,
                                    end_date = end_date'\<rparr>;
                                 db' = db\<lparr>Loan_objects := Loan_objects db @ [loan'],
                                          next_loan_id := next_loan_id db + 1\<rparr>;
                                 response_data =
                                   \<lparr>cr_loan_id = Some (loan_id loan'),
                                    cr_customer_id = req_customer_id data,
                                    loan_approved = True,
                                    cr_message = ''Loan approved successfully'',
                                    cr_monthly_installment = Some monthly_installment'\<rparr>
                             in
                             if LoanCreationResponseSerializer_is_valid response_data
                             then Inr (HTTP_200_OK response_data, db')
                             else Inr (HTTP_400_BAD_REQUEST, db')))
                 else
                   let response_data =
                         \<lparr>cr_loan_id = None,
                          cr_customer_id = req_customer_id data,
                          loan_approved = False,
                          cr_message = message',
                          cr_monthly_installment = None\<rparr>
                   in
                   if LoanCreationResponseSerializer_is_valid response_data
                   then Inr (HTTP_200_OK response_data, db)
                   else Inr (HTTP_400_BAD_REQUEST, db)))"

section \<open>customers/serializers.py: registration\<close>

record registration =
  reg_first_name :: string
  reg_last_name :: string
  reg_age :: int
  reg_monthly_income :: int
  reg_phone_number :: string

definition create :: "database \<Rightarrow> registration \<Rightarrow> customer \<times> database" where
  \<comment> \<open>\<^verbatim>\<open>CustomerRegistrationSerializer.create\<close>; the key comes from the table's counter.\<close>
  "create db validated_data =
     (let monthly_income = reg_monthly_income validated_data;
          approved_limit' = round_int_neg (36 * monthly_income) 5;
          customer =
            \<lparr>customer_id = next_customer_id db,
             first_name = reg_first_name validated_data,
             last_name = reg_last_name validated_data,
             phone_number = reg_phone_number validated_data,
             age = reg_age validated_data,
             monthly_salary = monthly_income,
             approved_limit = approved_limit',
             current_debt = 0\<rparr>
      in (customer,
          db\<lparr>Customer_objects := Customer_objects db @ [customer],
             next_customer_id := next_customer_id db + 1\<rparr>))"

section \<open>Notions used to state the properties\<close>

definition active_loans :: "database \<Rightarrow> date \<Rightarrow> customer \<Rightarrow> loan list" where
  \<comment> \<open>The customer's currently-active loans: those whose end date has not passed.\<close>
  "active_loans db now c =
     filter (\<lambda>l. loan_customer l = customer_id c \<and> date_gte (end_date l) now) (Loan_objects db)"

definition active_principal :: "database \<Rightarrow> date \<Rightarrow> customer \<Rightarrow> rat" where
  "active_principal db now c = sum_list (map loan_amount (active_loans db now c))"

definition active_installments :: "database \<Rightarrow> date \<Rightarrow> customer \<Rightarrow> rat" where
  "active_installments db now c = sum_list (map monthly_repayment (active_loans db now c))"

definition loan_history :: "database \<Rightarrow> customer \<Rightarrow> loan list" where
  "loan_history db c = filter (\<lambda>l. loan_customer l = customer_id c) (Loan_objects db)"

subsection \<open>Sample data\<close>

definition today :: date where
  "today = \<lparr>year = 2024, month = 6, day = 15\<rparr>"

definition alice :: customer where
  "alice = \<lparr>customer_id = 1, first_name = ''Alice'', last_name = ''Rao'',
     phone_number = ''9000000001'', age = 30, monthly_salary = 50000,
     approved_limit = 1800000, current_debt = 0\<rparr>"

definition bob :: customer where
  "bob = \<lparr>customer_id = 2, first_name = ''Bob'', last_name = ''Das'',
     phone_number = ''9000000002'', age = 41, monthly_salary = 20000,
     approved_limit = 100000, current_debt = 0\<rparr>"

definition alice_loan :: loan where
  "alice_loan = \<lparr>loan_id = 1, loan_customer = 1, loan_amount = 1700000, tenure = 120,
     interest_rate = 12, monthly_repayment = 2439006 / 100, emis_paid_on_time = 6,
     start_date = \<lparr>year = 2023, month = 12, day = 1\<rparr>,
     end_date = \<lparr>year = 2033, month = 12, day = 1\<rparr>\<rparr>"

definition bob_loan :: loan where
  "bob_loan = \<lparr>loan_id = 2, loan_customer = 2, loan_amount = 100000, tenure = 12,
     interest_rate = 12, monthly_repayment = 888488 / 100, emis_paid_on_time = 12,
     start_date = \<lparr>year = 2024, month = 1, day = 10\<rparr>,
     end_date = \<lparr>year = 2025, month = 1, day = 4\<rparr>\<rparr>"

definition empty_history :: database where
  "empty_history = \<lparr>Customer_objects = [alice, bob], Loan_objects = [],
     next_customer_id = 3, next_loan_id = 1\<rparr>"

definition sample_db :: database where
  "sample_db = \<lparr>Customer_objects = [alice, bob], Loan_objects = [alice_loan, bob_loan],
     next_customer_id = 3, next_loan_id = 3\<rparr>"

definition sample_registration :: registration where
  "sample_registration = \<lparr>reg_first_name = ''Carol'', reg_last_name = ''Nair'', reg_age = 27,
     reg_monthly_income = 50000, reg_phone_number = ''9000000003''\<rparr>"

definition sample_request :: loan_request where
  "sample_request =
     \<lparr>req_customer_id = 1, req_loan_amount = 200000, req_interest_rate = 8, req_tenure = 3\<rparr>"

definition negative_request :: loan_request where
  "negative_request =
     \<lparr>req_customer_id = 1, req_loan_amount = - 1000, req_interest_rate = 8, req_tenure = - 3\<rparr>"

definition zero_tenure_request :: loan_request where
  "zero_tenure_request =
     \<lparr>req_customer_id = 1, req_loan_amount = 200000, req_interest_rate = 8, req_tenure = 0\<rparr>"

definition zero_rate_request :: loan_request where
  "zero_rate_request =
     \<lparr>req_customer_id = 1, req_loan_amount = 200000, req_interest_rate = 0, req_tenure = 3\<rparr>"

definition oversized_request :: loan_request where
  "oversized_request =
     \<lparr>req_customer_id = 1, req_loan_amount = 999999999999 / 100, req_interest_rate = 8,
      req_tenure = 1\<rparr>"

section \<open>Rounding\<close>

lemma round_half_even_near: "\<bar>of_int (round_half_even x) - x\<bar> \<le> 1 / 2"
proof -
  define f where "f = \<lfloor>x\<rfloor>"
  have "of_int f \<le> x" "x < of_int f + 1"
    unfolding f_def by linarith+
  then show ?thesis
    unfolding round_half_even_def Let_def f_def [symmetric]
    by (auto simp: abs_if)
qed

lemma round_half_even_nearest:
  "\<bar>of_int (round_half_even x) - x\<bar> \<le> \<bar>of_int k - x\<bar>"
proof (cases "k = round_half_even x")
  case True
  then show ?thesis by simp
next
  case False
  then have "\<bar>k - round_half_even x\<bar> \<ge> 1" by linarith
  then have "\<bar>(of_int k :: rat) - of_int (round_half_even x)\<bar> \<ge> 1"
    by (metis of_int_1 of_int_abs of_int_diff of_int_le_iff)
  with round_half_even_near [of x] show ?thesis by linarith
qed

lemma round_int_neg_nearest:
  "\<bar>round_int_neg n k - n\<bar> \<le> \<bar>j * 10 ^ k - n\<bar>"
proof -
  let ?x = "(of_int n :: rat) / 10 ^ k"
  have pos: "(0::rat) < 10 ^ k" by simp
  have "\<bar>of_int (round_half_even ?x) - ?x\<bar> * 10 ^ k \<le> \<bar>of_int j - ?x\<bar> * 10 ^ k"
    using round_half_even_nearest [of ?x j] pos by (simp add: mult_right_mono)
  moreover have "\<bar>of_int i - ?x\<bar> * 10 ^ k = \<bar>of_int (i * 10 ^ k - n)\<bar>" for i
  proof -
    have "\<bar>of_int i - ?x\<bar> * 10 ^ k = \<bar>(of_int i - ?x) * 10 ^ k\<bar>"
      by (simp add: abs_mult)
    also have "(of_int i - ?x) * 10 ^ k = of_int (i * 10 ^ k - n)"
      by (simp add: field_simps)
    finally show ?thesis .
  qed
  ultimately have
    "\<bar>(of_int (round_half_even ?x * 10 ^ k - n) :: rat)\<bar> \<le> \<bar>of_int (j * 10 ^ k - n)\<bar>"
    by simp
  then show ?thesis
    unfolding round_int_neg_def by (simp only: of_int_abs [symmetric] of_int_le_iff)
qed




section \<open>Registration\<close>

text \<open>
  Claim C9. A registration with monthly income \<open>m\<close> creates the customer with
  \<open>approved_limit\<close> equal to \<open>36 * m\<close> rounded to the nearest multiple of 100,000: the
  limit is a multiple of 100,000 and no multiple of 100,000 is closer to \<open>36 * m\<close>.
  \<open>current_debt\<close> starts at 0, the income is stored as \<open>monthly_salary\<close> and the row is
  added to the customers. This holds for every integer income, in particular for
  every \<open>m \<ge> 0\<close>.
\<close>

theorem create_approved_limit_nearest_lakh:
  "(\<exists>q. approved_limit (fst (create db v)) = q * 100000) \<and>
   (\<forall>j. \<bar>approved_limit (fst (create db v)) - 36 * reg_monthly_income v\<bar>
          \<le> \<bar>j * 100000 - 36 * reg_monthly_income v\<bar>) \<and>
   current_debt (fst (create db v)) = 0 \<and>
   monthly_salary (fst (create db v)) = reg_monthly_income v \<and>
   Customer_objects (snd (create db v)) = Customer_objects db @ [fst (create db v)]"
proof -
  have al: "approved_limit (fst (create db v)) = round_int_neg (36 * reg_monthly_income v) 5"
    by (simp add: create_def Let_def)
  have "\<exists>q. round_int_neg (36 * reg_monthly_income v) 5 = q * 100000"
    unfolding round_int_neg_def by (rule exI) simp
  moreover have "\<bar>round_int_neg (36 * reg_monthly_income v) 5 - 36 * reg_monthly_income v\<bar>
      \<le> \<bar>j * 100000 - 36 * reg_monthly_income v\<bar>" for j
    using round_int_neg_nearest [of "36 * reg_monthly_income v" 5 j] by simp
  moreover have "current_debt (fst (create db v)) = 0"
    and "monthly_salary (fst (create db v)) = reg_monthly_income v"
    and "Customer_objects (snd (create db v)) = Customer_objects db @ [fst (create db v)]"
    by (simp_all add: create_def Let_def)
  ultimately show ?thesis
    unfolding al by blast
qed

text \<open>An income of 50,000 gives a limit of 1,800,000.\<close>

theorem create_approved_limit_nearest_lakh_witness:
  "approved_limit (fst (create empty_history sample_registration)) = 1800000 \<and>
   current_debt (fst (create empty_history sample_registration)) = 0"
proof -
  have "\<bar>approved_limit (fst (create empty_history sample_registration))
          - 36 * reg_monthly_income sample_registration\<bar>
        \<le> \<bar>18 * 100000 - 36 * reg_monthly_income sample_registration\<bar>"
    using create_approved_limit_nearest_lakh [of empty_history sample_registration] by blast
  moreover have "reg_monthly_income sample_registration = 50000"
    by (simp add: sample_registration_def)
  ultimately have "approved_limit (fst (create empty_history sample_registration)) = 1800000"
    by simp
  then show ?thesis
    using create_approved_limit_nearest_lakh [of empty_history sample_registration] by simp
qed

section \<open>The EMI calculator\<close>

text \<open>
  Claim C6. For every principal \<open>p\<close> and every tenure \<open>n > 0\<close>, \<open>calculate_emi p 0 n\<close> is
  exactly \<open>p / n\<close>: the zero-rate branch divides and does not round to 2 decimals.
\<close>

theorem calculate_emi_zero_rate:
  "n > 0 \<Longrightarrow> calculate_emi p 0 n = Inr (p / of_int n)"
  by (simp add: calculate_emi_def float_div_def)

theorem calculate_emi_zero_rate_witness:
  "(3::int) > 0 \<and> calculate_emi 100 0 3 = Inr (100 / 3) \<and> (100 / 3 :: rat) \<noteq> 3333 / 100"
  using calculate_emi_zero_rate [of 3 100] by simp

text \<open>
  The divisors of \<open>calculate_emi\<close>. With \<open>1 + monthly_rate > 0\<close> (an annual rate above
  \<open>-1200\<close>) the power \<open>(1 + monthly_rate) ** tenure\<close> is 1 only for tenure 0, so
  the function raises exactly for tenure 0.
\<close>

lemma power_int_eq_1_iff:
  fixes a :: rat
  assumes "0 < a" "a \<noteq> 1"
  shows "power_int a n = 1 \<longleftrightarrow> n = 0"
proof
  assume eq: "power_int a n = 1"
  show "n = 0"
  proof (rule ccontr)
    assume "n \<noteq> 0"
    then consider "n < 0" | "0 < n" by linarith
    then show False
    proof cases
      case 1
      show False
      proof (cases "1 < a")
        case True
        from power_int_strict_increasing [OF 1 True] eq show False by simp
      next
        case False
        with assms have "a < 1" by simp
        from power_int_strict_decreasing [OF 1 \<open>0 < a\<close> this] eq show False by simp
      qed
    next
      case 2
      show False
      proof (cases "1 < a")
        case True
        from power_int_strict_increasing [OF 2 True] eq show False by simp
      next
        case False
        with assms have "a < 1" by simp
        from power_int_strict_decreasing [OF 2 \<open>0 < a\<close> this] eq show False by simp
      qed
    qed
  qed
qed simp

lemma calculate_emi_raises_iff:
  assumes "- 1200 < r"
  shows "(\<exists>e. calculate_emi p r n = Inl e) \<longleftrightarrow> n = 0"
proof (cases "r = 0")
  case True
  then show ?thesis by (simp add: calculate_emi_def float_div_def)
next
  case False
  have pos: "0 < 1 + r / 12 / 100" using assms by simp
  have ne: "1 + r / 12 / 100 \<noteq> 1" using False by simp
  show ?thesis
    using power_int_eq_1_iff [OF pos ne, of n] pos False
    by (simp add: calculate_emi_def float_div_def float_pow_def Let_def)
qed

lemma calculate_emi_returns:
  assumes "- 1200 < r" "n \<noteq> 0"
  shows "\<exists>emi. calculate_emi p r n = Inr emi"
  using calculate_emi_raises_iff [OF assms(1), of p n] assms(2)
  by (cases "calculate_emi p r n") auto

section \<open>The approval decision\<close>

lemma or_0_Sum: "or_0 (Sum_aggregate f rows) = sum_list (map f rows)"
  by (simp add: or_0_def Sum_aggregate_def)

text \<open>
  The decision written over the sums of the active loans: the limit check, the
  score tiers, the corrected rate and the affordability check, in the code's order.
\<close>

lemma get_approval_decision_eq:
  "get_approval_decision db now credit_score c amount rate n =
     (if active_principal db now c + amount > of_int (approved_limit c)
      then Inr (False, rate, ''Loan amount exceeds approved limit'')
      else if credit_score \<le> 10 then Inr (False, rate, ''Credit score too low'')
      else
        case calculate_emi amount
               (max rate (if credit_score > 50 then 10 else if credit_score > 30 then 12 else 16)) n of
          Inl e \<Rightarrow> Inl e
        | Inr emi \<Rightarrow>
            if emi + active_installments db now c > of_int (monthly_salary c) * (1 / 2)
            then Inr (False,
                   max rate (if credit_score > 50 then 10 else if credit_score > 30 then 12 else 16),
                   ''EMI exceeds 50% of monthly salary'')
            else Inr (True,
                   max rate (if credit_score > 50 then 10 else if credit_score > 30 then 12 else 16),
                   ''Approved''))"
  by (auto simp: get_approval_decision_def or_0_Sum active_principal_def active_installments_def
        active_loans_def Let_def split: sum.splits)

lemma get_approval_decision_rate_ge:
  assumes "get_approval_decision db now credit_score c amount rate n = Inr (a, cr, m)"
  shows "rate \<le> cr"
  using assms
  by (auto simp: get_approval_decision_eq split: if_splits sum.splits)

lemma get_approval_decision_raises_iff:
  assumes "- 1200 < rate"
  shows "(\<exists>e. get_approval_decision db now s c amount rate n = Inl e) \<longleftrightarrow>
         n = 0 \<and> active_principal db now c + amount \<le> of_int (approved_limit c) \<and> 10 < s"
proof -
  define cr where "cr = max rate (if 50 < s then 10 else if 30 < s then 12 else 16)"
  have eq: "get_approval_decision db now s c amount rate n =
     (if active_principal db now c + amount > of_int (approved_limit c)
      then Inr (False, rate, ''Loan amount exceeds approved limit'')
      else if s \<le> 10 then Inr (False, rate, ''Credit score too low'')
      else
        case calculate_emi amount cr n of
          Inl e \<Rightarrow> Inl e
        | Inr emi \<Rightarrow>
            if emi + active_installments db now c > of_int (monthly_salary c) * (1 / 2)
            then Inr (False, cr, ''EMI exceeds 50% of monthly salary'')
            else Inr (True, cr, ''Approved''))"
    unfolding cr_def by (rule get_approval_decision_eq)
  have "- 1200 < cr" using assms by (simp add: cr_def max_def)
  from calculate_emi_raises_iff [OF this, of amount n]
  show ?thesis
    unfolding eq by (cases "calculate_emi amount cr n") auto
qed

lemma get_approval_decision_error:
  "get_approval_decision db now s c amount rate n = Inl e \<Longrightarrow> e = ZeroDivisionError"
  by (auto simp: get_approval_decision_eq calculate_emi_def float_div_def float_pow_def Let_def
      split: if_splits sum.splits)

lemma calculate_emi_error:
  "calculate_emi p r n = Inl e \<Longrightarrow> e = ZeroDivisionError"
  by (auto simp: calculate_emi_def float_div_def float_pow_def Let_def split: if_splits sum.splits)

text \<open>
  Claim C3. If the principal of the currently-active loans plus the requested amount
  exceeds the customer's \<open>approved_limit\<close>, the decision is a rejection with the
  limit-exceeded message and the requested rate unchanged, whatever the credit score and
  the tenure: the score tiers and the affordability check are not reached (the result is
  the same for a score of at most 10, and for tenure 0, where the EMI would raise).
\<close>

theorem limit_exceeded_rejects:
  assumes "active_principal db now c + amount > of_int (approved_limit c)"
  shows "get_approval_decision db now credit_score c amount rate n =
           Inr (False, rate, ''Loan amount exceeds approved limit'')"
  using assms by (simp add: get_approval_decision_eq)

theorem limit_exceeded_rejects_witness:
  "active_principal sample_db today alice + 200000 > of_int (approved_limit alice) \<and>
   get_approval_decision sample_db today 5 alice 200000 8 0 =
     Inr (False, 8, ''Loan amount exceeds approved limit'')"
proof -
  have h: "active_principal sample_db today alice + 200000 > of_int (approved_limit alice)"
    by code_simp
  from limit_exceeded_rejects [OF h, of 5 8 0] h show ?thesis by simp
qed

text \<open>
  Claim C2. Once the limit check passes, the tier is chosen by strict comparisons on
  the score: a score of at most 10 is rejected with the score-too-low message and the
  requested rate unchanged, for every tenure (no EMI is computed, so tenure 0 does not
  raise); a score above 10 gets the corrected rate \<open>max rate min_rate\<close> with
  \<open>min_rate\<close> 10 above 50, 12 above 30 and 16 above 10, so 51 gives 10, 50 and 31 give
  12, 30 and 11 give 16. The tiers with a minimum rate go on to compute the EMI, which
  needs a tenure other than 0.
\<close>

theorem score_tier_min_rate:
  assumes "active_principal db now c + amount \<le> of_int (approved_limit c)"
  shows
    "(credit_score \<le> 10 \<longrightarrow>
        get_approval_decision db now credit_score c amount rate n =
          Inr (False, rate, ''Credit score too low'')) \<and>
     (10 < credit_score \<and> n \<noteq> 0 \<longrightarrow>
        (\<exists>a m. get_approval_decision db now credit_score c amount rate n =
           Inr (a, max rate (if 50 < credit_score then 10
                             else if 30 < credit_score then 12 else 16), m))) \<and>
     (n \<noteq> 0 \<longrightarrow>
        (\<exists>a m. get_approval_decision db now 51 c amount rate n = Inr (a, max rate 10, m)) \<and>
        (\<exists>a m. get_approval_decision db now 50 c amount rate n = Inr (a, max rate 12, m)) \<and>
        (\<exists>a m. get_approval_decision db now 31 c amount rate n = Inr (a, max rate 12, m)) \<and>
        (\<exists>a m. get_approval_decision db now 30 c amount rate n = Inr (a, max rate 16, m)) \<and>
        (\<exists>a m. get_approval_decision db now 11 c amount rate n = Inr (a, max rate 16, m)))"
proof -
  have tier: "\<exists>a m. get_approval_decision db now s c amount rate n =
      Inr (a, max rate (if 50 < s then 10 else if 30 < s then 12 else 16), m)"
    if "10 < s" "n \<noteq> 0" for s
  proof -
    let ?cr = "max rate (if 50 < s then 10 else if 30 < s then 12 else 16)"
    have "- 1200 < ?cr" by (simp add: max_def)
    from calculate_emi_returns [OF this \<open>n \<noteq> 0\<close>]
    obtain emi where "calculate_emi amount ?cr n = Inr emi" by blast
    with assms that show ?thesis by (auto simp: get_approval_decision_eq)
  qed
  have low: "get_approval_decision db now credit_score c amount rate n =
      Inr (False, rate, ''Credit score too low'')" if "credit_score \<le> 10"
    using assms that by (simp add: get_approval_decision_eq)
  from tier [of 51] tier [of 50] tier [of 31] tier [of 30] tier [of 11] tier [of credit_score] low
  show ?thesis by simp
qed

theorem score_tier_min_rate_witness:
  "active_principal empty_history today alice + 200000 \<le> of_int (approved_limit alice) \<and>
   get_approval_decision empty_history today 10 alice 200000 8 24 =
     Inr (False, 8, ''Credit score too low'') \<and>
   get_approval_decision empty_history today 10 alice 200000 8 0 =
     Inr (False, 8, ''Credit score too low'') \<and>
   (\<exists>a m. get_approval_decision empty_history today 51 alice 200000 8 24 = Inr (a, 10, m)) \<and>
   (\<exists>a m. get_approval_decision empty_history today 50 alice 200000 8 24 = Inr (a, 12, m)) \<and>
   (\<exists>a m. get_approval_decision empty_history today 31 alice 200000 8 24 = Inr (a, 12, m)) \<and>
   (\<exists>a m. get_approval_decision empty_history today 30 alice 200000 8 24 = Inr (a, 16, m)) \<and>
   (\<exists>a m. get_approval_decision empty_history today 11 alice 200000 8 24 = Inr (a, 16, m))"
proof -
  have h: "active_principal empty_history today alice + 200000 \<le> of_int (approved_limit alice)"
    by code_simp
  from score_tier_min_rate [OF h, of 10 8 24] score_tier_min_rate [OF h, of 10 8 0]
    score_tier_min_rate [OF h, of 51 8 24] h
  show ?thesis by simp
qed

text \<open>
  Claim C5. Whenever the decision returns, in any of its four outcomes, the corrected
  rate it returns is at least the requested rate.
\<close>

theorem corrected_rate_never_lower:
  assumes "get_approval_decision db now credit_score c amount rate n = Inr (a, cr, m)"
  shows "rate \<le> cr"
  using assms by (rule get_approval_decision_rate_ge)

theorem corrected_rate_never_lower_witness:
  "get_approval_decision empty_history today 50 alice 20000 8 3 = Inr (True, 12, ''Approved'') \<and>
   (8::rat) \<le> 12"
proof -
  have h: "get_approval_decision empty_history today 50 alice 20000 8 3 =
      Inr (True, 12, ''Approved'')"
    by code_simp
  from corrected_rate_never_lower [OF h] h show ?thesis by simp
qed

text \<open>
  Claim C4. For a request that passes the limit check and has a score above 10 (and a
  tenure other than 0, so that the EMI exists), the EMI \<open>emi\<close> is computed at the
  corrected rate \<open>cr\<close>; the decision is the rejection with the EMI-too-high message
  exactly when \<open>emi\<close> plus the monthly installments of the active loans exceeds half the
  monthly salary, that rejection carries \<open>cr\<close>, and otherwise the decision is the
  approval with \<open>cr\<close>.
\<close>

theorem affordability_check:
  assumes "active_principal db now c + amount \<le> of_int (approved_limit c)"
    and "10 < credit_score" and "n \<noteq> 0"
  shows "\<exists>cr emi.
     cr = max rate (if 50 < credit_score then 10 else if 30 < credit_score then 12 else 16) \<and>
     calculate_emi amount cr n = Inr emi \<and>
     (emi + active_installments db now c > of_int (monthly_salary c) * (1 / 2) \<longleftrightarrow>
        get_approval_decision db now credit_score c amount rate n =
          Inr (False, cr, ''EMI exceeds 50% of monthly salary'')) \<and>
     (\<not> emi + active_installments db now c > of_int (monthly_salary c) * (1 / 2) \<longleftrightarrow>
        get_approval_decision db now credit_score c amount rate n =
          Inr (True, cr, ''Approved''))"
proof -
  let ?cr = "max rate (if 50 < credit_score then 10 else if 30 < credit_score then 12 else 16)"
  have "- 1200 < ?cr" by (simp add: max_def)
  from calculate_emi_returns [OF this \<open>n \<noteq> 0\<close>]
  obtain emi where emi: "calculate_emi amount ?cr n = Inr emi" by blast
  have "(emi + active_installments db now c > of_int (monthly_salary c) * (1 / 2) \<longleftrightarrow>
        get_approval_decision db now credit_score c amount rate n =
          Inr (False, ?cr, ''EMI exceeds 50% of monthly salary''))"
    using assms emi by (simp add: get_approval_decision_eq)
  moreover have "(\<not> emi + active_installments db now c > of_int (monthly_salary c) * (1 / 2) \<longleftrightarrow>
        get_approval_decision db now credit_score c amount rate n =
          Inr (True, ?cr, ''Approved''))"
    using assms emi by (simp add: get_approval_decision_eq)
  ultimately show ?thesis using emi by blast
qed

theorem affordability_check_witness:
  "active_principal empty_history today alice + 200000 \<le> of_int (approved_limit alice) \<and>
   active_principal empty_history today alice + 20000 \<le> of_int (approved_limit alice) \<and>
   (10::int) < 50 \<and> (3::int) \<noteq> 0 \<and>
   active_installments empty_history today alice = 0 \<and>
   monthly_salary alice = 50000 \<and>
   calculate_emi 200000 12 3 = Inr (3400221 / 50) \<and>
   get_approval_decision empty_history today 50 alice 200000 8 3 =
     Inr (False, 12, ''EMI exceeds 50% of monthly salary'') \<and>
   calculate_emi 20000 12 3 = Inr (170011 / 25) \<and>
   get_approval_decision empty_history today 50 alice 20000 8 3 = Inr (True, 12, ''Approved'')"
proof -
  have h: "active_principal empty_history today alice + 200000 \<le> of_int (approved_limit alice)"
    and h': "active_principal empty_history today alice + 20000 \<le> of_int (approved_limit alice)"
    by code_simp+
  have e: "calculate_emi 200000 12 3 = Inr (3400221 / 50)"
    and e': "calculate_emi 20000 12 3 = Inr (170011 / 25)"
    by code_simp+
  have i: "active_installments empty_history today alice = 0"
    by code_simp
  have s: "monthly_salary alice = 50000"
    by (simp add: alice_def)
  from affordability_check [OF h, of 50 3 8]
  obtain cr emi where cr: "cr = max (8::rat) 12"
    and emi: "calculate_emi 200000 cr 3 = Inr emi"
    and rej: "emi + active_installments empty_history today alice
                > of_int (monthly_salary alice) * (1 / 2) \<longleftrightarrow>
              get_approval_decision empty_history today 50 alice 200000 8 3 =
                Inr (False, cr, ''EMI exceeds 50% of monthly salary'')"
    by auto
  from cr have cr12: "cr = 12" by simp
  with emi e have "emi = 3400221 / 50" by simp
  with rej i s cr12
  have r1: "get_approval_decision empty_history today 50 alice 200000 8 3 =
     Inr (False, 12, ''EMI exceeds 50% of monthly salary'')"
    by simp
  from affordability_check [OF h', of 50 3 8]
  obtain cr' emi' where cr': "cr' = max (8::rat) 12"
    and emi': "calculate_emi 20000 cr' 3 = Inr emi'"
    and app: "\<not> emi' + active_installments empty_history today alice
                > of_int (monthly_salary alice) * (1 / 2) \<longleftrightarrow>
              get_approval_decision empty_history today 50 alice 20000 8 3 =
                Inr (True, cr', ''Approved'')"
    by auto
  from cr' have cr12': "cr' = 12" by simp
  with emi' e' have "emi' = 170011 / 25" by simp
  with app i s cr12'
  have r2: "get_approval_decision empty_history today 50 alice 20000 8 3 =
     Inr (True, 12, ''Approved'')"
    by simp
  from h h' e e' i s r1 r2 show ?thesis by simp
qed

section \<open>The credit score\<close>

lemma current_loans_eq:
  "filter (\<lambda>l. date_gte (end_date l) now)
     (filter (\<lambda>l. loan_customer l = customer_id c) (Loan_objects db)) = active_loans db now c"
  by (simp add: active_loans_def)

text \<open>
  Claim C1. For a customer with a non-empty loan history and \<open>approved_limit > 0\<close>, if
  the principal of the currently-active loans divided by \<open>approved_limit\<close> is at least 1,
  the credit score is exactly 0, whatever the payment, loan-count and recent-activity
  factors contributed.
\<close>

theorem utilization_override:
  assumes "loan_history db c \<noteq> []"
    and "0 < approved_limit c"
    and "active_principal db now c / of_int (approved_limit c) \<ge> 1"
  shows "calculate_credit_score db now c = 0"
proof -
  have "\<not> active_principal db now c / of_int (approved_limit c) \<le> 1 / 2"
    "\<not> active_principal db now c / of_int (approved_limit c) \<le> 3 / 4"
    "\<not> active_principal db now c / of_int (approved_limit c) < 1"
    using assms(3) by linarith+
  moreover have "or_0 (Sum_aggregate loan_amount (filter (\<lambda>l. date_gte (end_date l) now)
      (filter (\<lambda>l. loan_customer l = customer_id c) (Loan_objects db)))) = active_principal db now c"
    by (simp only: or_0_Sum current_loans_eq active_principal_def)
  moreover have "filter (\<lambda>l. loan_customer l = customer_id c) (Loan_objects db) \<noteq> []"
    using assms(1) by (simp add: loan_history_def)
  ultimately show ?thesis
    using assms(2)
    unfolding calculate_credit_score_def Let_def
    by (simp add: int_trunc_def)
qed

theorem utilization_override_witness:
  "loan_history sample_db bob \<noteq> [] \<and> 0 < approved_limit bob \<and>
   active_principal sample_db today bob / of_int (approved_limit bob) \<ge> 1 \<and>
   calculate_credit_score sample_db today bob = 0"
proof -
  have h1: "loan_history sample_db bob \<noteq> []" by code_simp
  have h2: "0 < approved_limit bob" by code_simp
  have h3: "active_principal sample_db today bob / of_int (approved_limit bob) \<ge> 1" by code_simp
  from utilization_override [OF h1 h2 h3] h1 h2 h3 show ?thesis by simp
qed

section \<open>Binary64 rounding\<close>


lemma bit_length_pos: "0 < k \<Longrightarrow> 0 < bit_length k"
  by simp
























section \<open>The order of the EMI\<close>










subsection \<open>Values of the calculator\<close>

















subsection \<open>Claim C7\<close>




section \<open>The eligibility endpoint\<close>

lemma check_eligibility_found:
  assumes "LoanEligibilitySerializer_is_valid data"
    and "find (\<lambda>c. customer_id c = req_customer_id data) (Customer_objects db) = Some c"
  shows "check_eligibility db now data =
     (case get_approval_decision db now (calculate_credit_score db now c) c
             (req_loan_amount data) (req_interest_rate data) (req_tenure data) of
        Inl e \<Rightarrow> Inl e
      | Inr (a, cr, m) \<Rightarrow>
          (case calculate_emi (req_loan_amount data) cr (req_tenure data) of
             Inl e \<Rightarrow> Inl e
           | Inr mi \<Rightarrow>
               if LoanEligibilityResponseSerializer_is_valid
                    \<lparr>resp_customer_id = req_customer_id data, approval = a,
                     resp_interest_rate = req_interest_rate data, corrected_interest_rate = cr,
                     resp_tenure = req_tenure data, monthly_installment = mi,
                     message = (if \<not> a then Some m else None)\<rparr>
               then Inr (HTTP_200_OK
                    \<lparr>resp_customer_id = req_customer_id data, approval = a,
                     resp_interest_rate = req_interest_rate data, corrected_interest_rate = cr,
                     resp_tenure = req_tenure data, monthly_installment = mi,
                     message = (if \<not> a then Some m else None)\<rparr>)
               else Inr HTTP_400_BAD_REQUEST))"
  using assms by (auto simp: check_eligibility_def Let_def split: sum.splits prod.splits)

lemma check_eligibility_200:
  assumes "check_eligibility db now data = Inr (HTTP_200_OK resp)"
  obtains c a cr m mi where
    "LoanEligibilitySerializer_is_valid data"
    "find (\<lambda>c. customer_id c = req_customer_id data) (Customer_objects db) = Some c"
    "get_approval_decision db now (calculate_credit_score db now c) c
       (req_loan_amount data) (req_interest_rate data) (req_tenure data) = Inr (a, cr, m)"
    "calculate_emi (req_loan_amount data) cr (req_tenure data) = Inr mi"
    "resp = \<lparr>resp_customer_id = req_customer_id data, approval = a,
             resp_interest_rate = req_interest_rate data, corrected_interest_rate = cr,
             resp_tenure = req_tenure data, monthly_installment = mi,
             message = (if \<not> a then Some m else None)\<rparr>"
  using assms
  by (auto simp: check_eligibility_def Let_def split: if_splits option.splits sum.splits prod.splits)

lemma round_float_2_decimals: "of_int \<lfloor>round_float x 2 * 10 ^ 2\<rfloor> = round_float x 2 * 10 ^ 2"
  by (simp add: round_float_def)

lemma DecimalField_valid_round_float:
  "\<bar>round_float x 2\<bar> < 10 ^ 10 \<Longrightarrow> DecimalField_valid 12 2 (round_float x 2)"
  unfolding DecimalField_valid_def using round_float_2_decimals [of x] by simp

lemma calculate_emi_compound_rounded:
  assumes "r \<noteq> 0" "calculate_emi p r n = Inr mi"
  shows "\<exists>x. mi = round_float x 2"
  using assms
  by (auto simp: calculate_emi_def Let_def split: sum.splits)

lemma get_approval_decision_outcomes:
  assumes "get_approval_decision db now s c amount rate n = Inr (a, cr, m)"
  shows "(cr = rate \<or> cr = 10 \<or> cr = 12 \<or> cr = 16) \<and>
         (if a then m = ''Approved''
          else m = ''Loan amount exceeds approved limit'' \<or> m = ''Credit score too low'' \<or>
               m = ''EMI exceeds 50% of monthly salary'')"
  using assms
  by (auto simp: get_approval_decision_eq max_def split: if_splits sum.splits)

text \<open>
  Claim C10, as the code has it. A rejected request is not always answered with an
  installment: the response passes through \<open>LoanEligibilityResponseSerializer\<close>, and
  when the installment does not fit \<^verbatim>\<open>DecimalField(max_digits=12, decimal_places=2)\<close>
  the answer is HTTP 400 with the serializer's errors. A limit-exceeded request at rate
  0 (200000 over 3 months) has the unrounded installment 66666.66\<dots>, and one for
  9999999999.99 at 8 percent over 1 month has the installment 10066666666.66 with 11
  digits before the point.
\<close>

theorem rejected_request_without_installment:
  "LoanEligibilitySerializer_is_valid zero_rate_request \<and>
   get_approval_decision sample_db today (calculate_credit_score sample_db today alice) alice
     200000 0 3 = Inr (False, 0, ''Loan amount exceeds approved limit'') \<and>
   calculate_emi 200000 0 3 = Inr (200000 / 3) \<and>
   check_eligibility sample_db today zero_rate_request = Inr HTTP_400_BAD_REQUEST \<and>
   LoanEligibilitySerializer_is_valid oversized_request \<and>
   get_approval_decision empty_history today (calculate_credit_score empty_history today alice)
     alice (999999999999 / 100) 8 1 = Inr (False, 8, ''Loan amount exceeds approved limit'') \<and>
   calculate_emi (999999999999 / 100) 8 1 = Inr (503333333333 / 50) \<and>
   check_eligibility empty_history today oversized_request = Inr HTTP_400_BAD_REQUEST"
  by code_simp

text \<open>
  Claim C10, amended. Every eligibility response with status 200, approved or
  rejected, carries as \<open>monthly_installment\<close> the value of \<open>calculate_emi\<close> at the requested
  amount and tenure and at the \<open>corrected_interest_rate\<close> of the same response, which is
  the rate the decision returned; for the limit-exceeded and score-too-low rejections
  that rate is the requested rate. For a valid request of an existing customer whose
  decision and installment are computed, the answer is HTTP 400 when the installment
  does not fit 12 digits with 2 decimals, and it is that status-200 response when the
  corrected rate is not 0 and the installment is below \<open>10 ^ 10\<close> in absolute value.
\<close>

theorem eligibility_response_installment:
  "(check_eligibility db now data = Inr (HTTP_200_OK resp) \<longrightarrow>
      calculate_emi (req_loan_amount data) (corrected_interest_rate resp) (req_tenure data)
        = Inr (monthly_installment resp) \<and>
      DecimalField_valid 12 2 (monthly_installment resp) \<and>
      (\<exists>c m. find (\<lambda>c. customer_id c = req_customer_id data) (Customer_objects db) = Some c \<and>
         get_approval_decision db now (calculate_credit_score db now c) c
           (req_loan_amount data) (req_interest_rate data) (req_tenure data)
         = Inr (approval resp, corrected_interest_rate resp, m)) \<and>
      (message resp = Some ''Loan amount exceeds approved limit'' \<or>
       message resp = Some ''Credit score too low''
         \<longrightarrow> \<not> approval resp \<and> corrected_interest_rate resp = req_interest_rate data)) \<and>
   (LoanEligibilitySerializer_is_valid data \<and>
    find (\<lambda>c. customer_id c = req_customer_id data) (Customer_objects db) = Some c \<and>
    get_approval_decision db now (calculate_credit_score db now c) c
      (req_loan_amount data) (req_interest_rate data) (req_tenure data) = Inr (a, cr, m) \<and>
    calculate_emi (req_loan_amount data) cr (req_tenure data) = Inr mi \<longrightarrow>
      (\<not> DecimalField_valid 12 2 mi \<longrightarrow> check_eligibility db now data = Inr HTTP_400_BAD_REQUEST) \<and>
      (cr \<noteq> 0 \<and> \<bar>mi\<bar> < 10 ^ 10 \<longrightarrow>
         check_eligibility db now data =
           Inr (HTTP_200_OK
             \<lparr>resp_customer_id = req_customer_id data, approval = a,
              resp_interest_rate = req_interest_rate data, corrected_interest_rate = cr,
              resp_tenure = req_tenure data, monthly_installment = mi,
              message = (if \<not> a then Some m else None)\<rparr>)))"
proof -
  have part1: "calculate_emi (req_loan_amount data) (corrected_interest_rate resp) (req_tenure data)
        = Inr (monthly_installment resp) \<and>
      DecimalField_valid 12 2 (monthly_installment resp) \<and>
      (\<exists>c m. find (\<lambda>c. customer_id c = req_customer_id data) (Customer_objects db) = Some c \<and>
         get_approval_decision db now (calculate_credit_score db now c) c
           (req_loan_amount data) (req_interest_rate data) (req_tenure data)
         = Inr (approval resp, corrected_interest_rate resp, m)) \<and>
      (message resp = Some ''Loan amount exceeds approved limit'' \<or>
       message resp = Some ''Credit score too low''
         \<longrightarrow> \<not> approval resp \<and> corrected_interest_rate resp = req_interest_rate data)"
    if ok: "check_eligibility db now data = Inr (HTTP_200_OK resp)"
  proof -
    from ok obtain c a cr m mi where
      v: "LoanEligibilitySerializer_is_valid data"
      and f: "find (\<lambda>c. customer_id c = req_customer_id data) (Customer_objects db) = Some c"
      and d: "get_approval_decision db now (calculate_credit_score db now c) c
         (req_loan_amount data) (req_interest_rate data) (req_tenure data) = Inr (a, cr, m)"
      and e: "calculate_emi (req_loan_amount data) cr (req_tenure data) = Inr mi"
      and r: "resp = \<lparr>resp_customer_id = req_customer_id data, approval = a,
               resp_interest_rate = req_interest_rate data, corrected_interest_rate = cr,
               resp_tenure = req_tenure data, monthly_installment = mi,
               message = (if \<not> a then Some m else None)\<rparr>"
      by (rule check_eligibility_200)
    have 1: "calculate_emi (req_loan_amount data) (corrected_interest_rate resp) (req_tenure data)
             = Inr (monthly_installment resp)"
      using e r by simp
    have 2: "\<exists>c m. find (\<lambda>c. customer_id c = req_customer_id data) (Customer_objects db) = Some c \<and>
              get_approval_decision db now (calculate_credit_score db now c) c
                (req_loan_amount data) (req_interest_rate data) (req_tenure data)
              = Inr (approval resp, corrected_interest_rate resp, m)"
      using f d r by auto
    have 3: "\<not> approval resp \<and> corrected_interest_rate resp = req_interest_rate data"
      if "message resp = Some ''Loan amount exceeds approved limit'' \<or>
          message resp = Some ''Credit score too low''"
      using that d r
      by (auto simp: get_approval_decision_eq split: if_splits sum.splits)
    have 4: "DecimalField_valid 12 2 (monthly_installment resp)"
      using ok v f d e r
      by (auto simp: check_eligibility_found [OF v f] LoanEligibilityResponseSerializer_is_valid_def
          split: if_splits)
    from 1 2 3 4 show ?thesis by blast
  qed
  have part2: "(\<not> DecimalField_valid 12 2 mi \<longrightarrow> check_eligibility db now data = Inr HTTP_400_BAD_REQUEST) \<and>
      (cr \<noteq> 0 \<and> \<bar>mi\<bar> < 10 ^ 10 \<longrightarrow>
         check_eligibility db now data =
           Inr (HTTP_200_OK
             \<lparr>resp_customer_id = req_customer_id data, approval = a,
              resp_interest_rate = req_interest_rate data, corrected_interest_rate = cr,
              resp_tenure = req_tenure data, monthly_installment = mi,
              message = (if \<not> a then Some m else None)\<rparr>))"
    if v: "LoanEligibilitySerializer_is_valid data"
      and f: "find (\<lambda>c. customer_id c = req_customer_id data) (Customer_objects db) = Some c"
      and d: "get_approval_decision db now (calculate_credit_score db now c) c
         (req_loan_amount data) (req_interest_rate data) (req_tenure data) = Inr (a, cr, m)"
      and e: "calculate_emi (req_loan_amount data) cr (req_tenure data) = Inr mi"
  proof -
    have bad: "check_eligibility db now data = Inr HTTP_400_BAD_REQUEST"
      if "\<not> DecimalField_valid 12 2 mi"
      using that d e
      by (simp add: check_eligibility_found [OF v f] LoanEligibilityResponseSerializer_is_valid_def)
    have good: "check_eligibility db now data =
           Inr (HTTP_200_OK
             \<lparr>resp_customer_id = req_customer_id data, approval = a,
              resp_interest_rate = req_interest_rate data, corrected_interest_rate = cr,
              resp_tenure = req_tenure data, monthly_installment = mi,
              message = (if \<not> a then Some m else None)\<rparr>)"
      if nz: "cr \<noteq> 0" and small: "\<bar>mi\<bar> < 10 ^ 10"
    proof -
      from calculate_emi_compound_rounded [OF nz e] small
      have mi: "DecimalField_valid 12 2 mi"
        by (auto intro: DecimalField_valid_round_float)
      have rate: "DecimalField_valid 5 2 (req_interest_rate data)"
        using v by (simp add: LoanEligibilitySerializer_is_valid_def)
      have c10: "DecimalField_valid 5 2 10" "DecimalField_valid 5 2 12" "DecimalField_valid 5 2 16"
        by (simp_all add: DecimalField_valid_def)
      from get_approval_decision_outcomes [OF d] rate c10
      have crv: "DecimalField_valid 5 2 cr" by auto
      from get_approval_decision_outcomes [OF d]
      have msg: "(case (if \<not> a then Some m else None) of None \<Rightarrow> True | Some m \<Rightarrow> m \<noteq> [])"
        by (auto split: if_splits)
      show ?thesis
        using d e mi rate crv msg
        by (simp add: check_eligibility_found [OF v f] LoanEligibilityResponseSerializer_is_valid_def)
    qed
    from bad good show ?thesis by blast
  qed
  from part1 part2 show ?thesis by blast
qed

theorem eligibility_response_installment_witness:
  "LoanEligibilitySerializer_is_valid sample_request \<and>
   find (\<lambda>c. customer_id c = req_customer_id sample_request) (Customer_objects sample_db)
     = Some alice \<and>
   get_approval_decision sample_db today (calculate_credit_score sample_db today alice) alice
     200000 8 3 = Inr (False, 8, ''Loan amount exceeds approved limit'') \<and>
   calculate_emi 200000 8 3 = Inr (1688938 / 25) \<and>
   check_eligibility sample_db today sample_request =
     Inr (HTTP_200_OK
       \<lparr>resp_customer_id = 1, approval = False, resp_interest_rate = 8,
        corrected_interest_rate = 8, resp_tenure = 3, monthly_installment = 1688938 / 25,
        message = Some ''Loan amount exceeds approved limit''\<rparr>) \<and>
   LoanEligibilitySerializer_is_valid zero_rate_request \<and>
   find (\<lambda>c. customer_id c = req_customer_id zero_rate_request) (Customer_objects sample_db)
     = Some alice \<and>
   get_approval_decision sample_db today (calculate_credit_score sample_db today alice) alice
     200000 0 3 = Inr (False, 0, ''Loan amount exceeds approved limit'') \<and>
   calculate_emi 200000 0 3 = Inr (200000 / 3) \<and>
   \<not> DecimalField_valid 12 2 (200000 / 3) \<and>
   check_eligibility sample_db today zero_rate_request = Inr HTTP_400_BAD_REQUEST"
proof -
  let ?resp = "\<lparr>resp_customer_id = 1, approval = False, resp_interest_rate = 8,
        corrected_interest_rate = 8, resp_tenure = 3, monthly_installment = 1688938 / 25,
        message = Some ''Loan amount exceeds approved limit''\<rparr>"
  have v8: "LoanEligibilitySerializer_is_valid sample_request" by code_simp
  have f8: "find (\<lambda>c. customer_id c = req_customer_id sample_request)
      (Customer_objects sample_db) = Some alice"
    by code_simp
  have d8: "get_approval_decision sample_db today (calculate_credit_score sample_db today alice)
      alice 200000 8 3 = Inr (False, 8, ''Loan amount exceeds approved limit'')"
    by code_simp
  have e8: "calculate_emi 200000 8 3 = Inr (1688938 / 25)" by code_simp
  have z8: "req_loan_amount sample_request = 200000" "req_interest_rate sample_request = 8"
    "req_tenure sample_request = 3" "req_customer_id sample_request = 1"
    by (simp_all add: sample_request_def)
  from eligibility_response_installment
    [of sample_db today sample_request ?resp alice False 8
        "''Loan amount exceeds approved limit''" "1688938 / 25"] v8 f8 d8 e8 z8
  have h: "check_eligibility sample_db today sample_request = Inr (HTTP_200_OK ?resp)"
    by simp
  have v: "LoanEligibilitySerializer_is_valid zero_rate_request" by code_simp
  have f: "find (\<lambda>c. customer_id c = req_customer_id zero_rate_request)
      (Customer_objects sample_db) = Some alice"
    by code_simp
  have d: "get_approval_decision sample_db today (calculate_credit_score sample_db today alice)
      alice 200000 0 3 = Inr (False, 0, ''Loan amount exceeds approved limit'')"
    by code_simp
  have e: "calculate_emi 200000 0 3 = Inr (200000 / 3)" by code_simp
  have n: "\<not> DecimalField_valid 12 2 (200000 / 3)" by code_simp
  have z: "req_loan_amount zero_rate_request = 200000" "req_interest_rate zero_rate_request = 0"
    "req_tenure zero_rate_request = 3"
    by (simp_all add: zero_rate_request_def)
  from eligibility_response_installment
    [of sample_db today zero_rate_request ?resp alice False 0
        "''Loan amount exceeds approved limit''" "200000 / 3"] v f d e n z
  have b: "check_eligibility sample_db today zero_rate_request = Inr HTTP_400_BAD_REQUEST"
    by simp
  from v8 f8 d8 e8 h v f d e n b show ?thesis by simp
qed

section \<open>Requests with non-positive terms\<close>

lemma DecimalField_valid_5_2_bound: "DecimalField_valid 5 2 r \<Longrightarrow> - 1200 < r"
  by (simp add: DecimalField_valid_def abs_if split: if_splits)

lemma check_eligibility_raises_iff:
  assumes valid: "LoanEligibilitySerializer_is_valid data"
    and found: "find (\<lambda>c. customer_id c = req_customer_id data) (Customer_objects db) = Some c"
  shows "(\<exists>e. check_eligibility db now data = Inl e) \<longleftrightarrow> req_tenure data = 0"
proof -
  have r: "- 1200 < req_interest_rate data"
    using valid by (simp add: LoanEligibilitySerializer_is_valid_def DecimalField_valid_5_2_bound)
  let ?d = "get_approval_decision db now (calculate_credit_score db now c) c
     (req_loan_amount data) (req_interest_rate data) (req_tenure data)"
  show ?thesis
  proof (cases ?d)
    case (Inl e)
    then have "req_tenure data = 0"
      using get_approval_decision_raises_iff [OF r, of db now "calculate_credit_score db now c" c
          "req_loan_amount data" "req_tenure data"] by auto
    with Inl show ?thesis by (simp add: check_eligibility_found [OF valid found])
  next
    case (Inr t)
    obtain a cr m where t: "t = (a, cr, m)" by (cases t) auto
    from Inr t have "req_interest_rate data \<le> cr" by (auto dest: get_approval_decision_rate_ge)
    with r have "- 1200 < cr" by simp
    from calculate_emi_raises_iff [OF this, of "req_loan_amount data" "req_tenure data"]
    show ?thesis
      using Inr t by (auto simp: check_eligibility_found [OF valid found] split: sum.splits)
  qed
qed

lemma check_eligibility_error:
  "check_eligibility db now data = Inl e \<Longrightarrow> e = ZeroDivisionError"
  by (auto simp: check_eligibility_def Let_def
      split: if_splits option.splits sum.splits prod.splits
      dest: get_approval_decision_error calculate_emi_error)

lemma create_loan_zero_tenure:
  assumes valid: "LoanCreationSerializer_is_valid data"
    and found: "find (\<lambda>c. customer_id c = req_customer_id data) (Customer_objects db) = Some c"
    and zero: "req_tenure data = 0"
  shows "create_loan plus_days db now data =
     (if active_principal db now c + req_loan_amount data > of_int (approved_limit c)
      then Inr (HTTP_200_OK \<lparr>cr_loan_id = None, cr_customer_id = req_customer_id data,
                  loan_approved = False, cr_message = ''Loan amount exceeds approved limit'',
                  cr_monthly_installment = None\<rparr>, db)
      else if calculate_credit_score db now c \<le> 10
      then Inr (HTTP_200_OK \<lparr>cr_loan_id = None, cr_customer_id = req_customer_id data,
                  loan_approved = False, cr_message = ''Credit score too low'',
                  cr_monthly_installment = None\<rparr>, db)
      else Inl ZeroDivisionError)"
proof -
  let ?s = "calculate_credit_score db now c"
  let ?cr = "max (req_interest_rate data) (if 50 < ?s then 10 else if 30 < ?s then 12 else 16)"
  have "- 1200 < ?cr" by (simp add: max_def)
  from calculate_emi_raises_iff [OF this, of "req_loan_amount data" 0]
  obtain e where e: "calculate_emi (req_loan_amount data) ?cr 0 = Inl e" by auto
  then have "e = ZeroDivisionError" by (rule calculate_emi_error)
  with e show ?thesis
    using valid found zero
    by (simp add: create_loan_def Let_def get_approval_decision_eq
        LoanCreationResponseSerializer_is_valid_def)
qed

lemma DecimalField_valid_minus:
  "DecimalField_valid max_digits decimal_places (- x) \<longleftrightarrow>
   DecimalField_valid max_digits decimal_places x"
proof -
  have "(\<exists>n. - y = rat_of_int n) \<longleftrightarrow> (\<exists>n. y = rat_of_int n)" for y
  proof
    assume "\<exists>n. - y = rat_of_int n"
    then obtain n where "- y = rat_of_int n" ..
    then have "y = rat_of_int (- n)" by simp
    then show "\<exists>n. y = rat_of_int n" ..
  next
    assume "\<exists>n. y = rat_of_int n"
    then obtain n where "y = rat_of_int n" ..
    then have "- y = rat_of_int (- n)" by simp
    then show "\<exists>n. - y = rat_of_int n" ..
  qed
  then show ?thesis
    by (simp add: DecimalField_valid_def)
qed

text \<open>
  Claim C8, as the code has it. No precondition on the sign of the terms exists: a
  request with tenure -3 and amount -1000 is valid for the serializer and is answered
  with an approval and an installment, and a request with tenure 0 reaches the EMI
  division, which raises \<open>ZeroDivisionError\<close>.
\<close>

theorem nonpositive_terms_not_rejected:
  "req_tenure negative_request \<le> 0 \<and> req_loan_amount negative_request \<le> 0 \<and>
   LoanEligibilitySerializer_is_valid negative_request \<and>
   check_eligibility empty_history today negative_request =
     Inr (HTTP_200_OK
       \<lparr>resp_customer_id = 1, approval = True, resp_interest_rate = 8,
        corrected_interest_rate = 12, resp_tenure = - 3, monthly_installment = 16501 / 50,
        message = None\<rparr>) \<and>
   req_tenure zero_tenure_request \<le> 0 \<and>
   LoanEligibilitySerializer_is_valid zero_tenure_request \<and>
   check_eligibility empty_history today zero_tenure_request = Inl ZeroDivisionError"
  by code_simp

text \<open>
  Claim C8, amended. The request serializers check only the digits of the two
  decimals: validity does not depend on the tenure or on the sign of the amount, and
  is the same for both endpoints, so no request is turned away for non-positive
  terms. For a valid request of an existing customer, the eligibility check raises
  \<open>ZeroDivisionError\<close>, at an EMI division, exactly when the tenure is 0; loan creation
  with tenure 0 raises it exactly when the request passes the limit check with a score
  above 10. For every rate the serializers admit, the divisors of the EMI are zero
  exactly for tenure 0.
\<close>

theorem nonpositive_terms_are_evaluated:
  assumes valid: "LoanEligibilitySerializer_is_valid data"
    and found: "find (\<lambda>c. customer_id c = req_customer_id data) (Customer_objects db) = Some c"
  shows
    "LoanCreationSerializer_is_valid data \<and>
     (\<forall>n. LoanEligibilitySerializer_is_valid (data\<lparr>req_tenure := n\<rparr>)) \<and>
     LoanEligibilitySerializer_is_valid (data\<lparr>req_loan_amount := - req_loan_amount data\<rparr>) \<and>
     (check_eligibility db now data = Inl ZeroDivisionError \<longleftrightarrow> req_tenure data = 0) \<and>
     (req_tenure data = 0 \<longrightarrow>
        (create_loan plus_days db now data = Inl ZeroDivisionError \<longleftrightarrow>
           active_principal db now c + req_loan_amount data \<le> of_int (approved_limit c) \<and>
           10 < calculate_credit_score db now c)) \<and>
     (\<forall>p r n. DecimalField_valid 5 2 r \<longrightarrow>
        (calculate_emi p r n = Inl ZeroDivisionError \<longleftrightarrow> n = 0))"
proof -
  have cv: "LoanCreationSerializer_is_valid data"
    using valid by (simp add: LoanCreationSerializer_is_valid_def LoanEligibilitySerializer_is_valid_def)
  have tn: "LoanEligibilitySerializer_is_valid (data\<lparr>req_tenure := n\<rparr>)" for n
    using valid by (simp add: LoanEligibilitySerializer_is_valid_def)
  have neg: "LoanEligibilitySerializer_is_valid (data\<lparr>req_loan_amount := - req_loan_amount data\<rparr>)"
    using valid by (simp add: LoanEligibilitySerializer_is_valid_def DecimalField_valid_minus)
  have raises: "(\<exists>e. check_eligibility db now data = Inl e) \<longleftrightarrow> req_tenure data = 0"
    by (rule check_eligibility_raises_iff [OF valid found])
  then have ce: "check_eligibility db now data = Inl ZeroDivisionError \<longleftrightarrow> req_tenure data = 0"
    by (auto dest: check_eligibility_error)
  have cl: "create_loan plus_days db now data = Inl ZeroDivisionError \<longleftrightarrow>
           active_principal db now c + req_loan_amount data \<le> of_int (approved_limit c) \<and>
           10 < calculate_credit_score db now c" if "req_tenure data = 0"
    unfolding create_loan_zero_tenure [OF cv found that] by auto
  have emi: "calculate_emi p r n = Inl ZeroDivisionError \<longleftrightarrow> n = 0"
    if "DecimalField_valid 5 2 r" for p r n
    using calculate_emi_raises_iff [OF DecimalField_valid_5_2_bound [OF that], of p n]
    by (auto dest: calculate_emi_error)
  from cv tn neg ce cl emi show ?thesis by blast
qed

theorem nonpositive_terms_are_evaluated_witness:
  "LoanEligibilitySerializer_is_valid zero_tenure_request \<and>
   find (\<lambda>c. customer_id c = req_customer_id zero_tenure_request) (Customer_objects empty_history)
     = Some alice \<and>
   req_tenure zero_tenure_request = 0 \<and>
   check_eligibility empty_history today zero_tenure_request = Inl ZeroDivisionError \<and>
   create_loan (\<lambda>d k. Inl OverflowError) empty_history today zero_tenure_request
     = Inl ZeroDivisionError \<and>
   DecimalField_valid 5 2 8 \<and>
   calculate_emi 200000 8 0 = Inl ZeroDivisionError \<and>
   calculate_emi 200000 8 (- 3) \<noteq> Inl ZeroDivisionError"
proof -
  have v: "LoanEligibilitySerializer_is_valid zero_tenure_request" by code_simp
  have f: "find (\<lambda>c. customer_id c = req_customer_id zero_tenure_request)
      (Customer_objects empty_history) = Some alice"
    by code_simp
  have z: "req_tenure zero_tenure_request = 0" by (simp add: zero_tenure_request_def)
  have l: "active_principal empty_history today alice + req_loan_amount zero_tenure_request
      \<le> of_int (approved_limit alice)"
    by code_simp
  have s: "10 < calculate_credit_score empty_history today alice" by code_simp
  have d: "DecimalField_valid 5 2 8" by code_simp
  from nonpositive_terms_are_evaluated [OF v f, of today "\<lambda>d k. Inl OverflowError"] v f z l s d
  show ?thesis by simp
qed

end
